theory Spec2Isabelle
  imports Complex_Main "HOL-Library.Word" "HOL-Library.Multiset"
begin

unbundle bit_operations_syntax

section \<open>Errors and the build configuration\<close>

text \<open>
  The bindings raise \<^verbatim>\<open>std::runtime_error\<close> with a message. Reads outside a
  \<^verbatim>\<open>std::vector\<close> are undefined behaviour in C++; the model makes them the
  error value \<open>OutOfBounds\<close>, so that they are a branch one can state facts about.
  A read of storage that has been released is undefined behaviour as well, and is the
  error value \<open>UseAfterFree\<close>.
\<close>

datatype error = runtime_error string | OutOfBounds | UseAfterFree

text \<open>
  The element types the bindings are instantiated with (\<^verbatim>\<open>float\<close>, \<^verbatim>\<open>double\<close>) and
  \<^verbatim>\<open>py::format_descriptor<T>::format()\<close> for them.
\<close>

datatype ctype = Float | Double

fun format_descriptor :: "ctype \<Rightarrow> string" where
  "format_descriptor Float = ''f''"
| "format_descriptor Double = ''d''"

text \<open>
  What the bindings take from the engine library and the platform, none of it defined in
  the binding sources: the type \<^verbatim>\<open>Operon::Scalar\<close> (one of the two floating types,
  fixed when the engine is built), the numeric conversion into that type of an element
  stored under a given buffer format, the hash of a variable name and the default name of
  column \<open>i\<close>. The type \<open>'v\<close> is the type of the numbers themselves.
\<close>

record 'v engine =
  Scalar :: ctype
  static_cast :: "string \<Rightarrow> 'v \<Rightarrow> 'v"
  Hasher :: "string \<Rightarrow> 64 word"
  DefaultName :: "nat \<Rightarrow> string"

text \<open>
  Conversion to \<^verbatim>\<open>Operon::Scalar\<close> of an element stored under format \<open>fmt\<close>: nothing
  happens to an element that is a Scalar already.
\<close>

definition cast_Scalar :: "'v engine \<Rightarrow> string \<Rightarrow> 'v \<Rightarrow> 'v" where
  "cast_Scalar eng fmt x =
     (if fmt = format_descriptor (Scalar eng) then x else static_cast eng fmt x)"

section \<open>Matrices, variables and the Dataset\<close>

text \<open>
  \<^verbatim>\<open>Operon::Dataset::Matrix\<close> is a dynamically sized column-major matrix: the coefficient
  \<open>(i, j)\<close> is at position \<open>j * rows + i\<close> of the storage.
\<close>

record 'v Matrix =
  nrows :: nat
  ncols :: nat
  coeffs :: "'v list"

definition col :: "'v Matrix \<Rightarrow> nat \<Rightarrow> 'v list" where
  "col m j = take (nrows m) (drop (j * nrows m) (coeffs m))"

record Variable =
  Name :: string
  Hash :: "64 word"
  Index :: nat

text \<open>
  A Dataset either owns its matrix or is a view of storage it does not own: the caller's
  array, or a converted copy that the argument conversion made and keeps.
\<close>

datatype ref_target = CallerData | TemporaryCopy

datatype storage = Owned | View ref_target

record 'v Dataset =
  variables :: "Variable list"
  Values :: "'v Matrix"
  holds :: storage

text \<open>
  Modelled from the spec: the constructors of \<^verbatim>\<open>Operon::Dataset\<close> are engine code that
  the binding sources only call. The spec gives a Dataset an ordered sequence of Variable
  descriptors, one per column, with the Hash derived from the Name and the Index the column
  position; built from a matrix it keeps that matrix, built from a reference it is a view
  (the zero-copy construction of the spec).
\<close>

definition DefaultVariables :: "'v engine \<Rightarrow> nat \<Rightarrow> Variable list" where
  "DefaultVariables eng n =
     map (\<lambda>i. \<lparr>Name = DefaultName eng i, Hash = Hasher eng (DefaultName eng i), Index = i\<rparr>)
       [0..<n]"

record 'v Ref =
  target :: ref_target
  view :: "'v Matrix"

definition Dataset_of_Matrix :: "'v engine \<Rightarrow> 'v Matrix \<Rightarrow> 'v Dataset" where
  "Dataset_of_Matrix eng m =
     \<lparr>variables = DefaultVariables eng (ncols m), Values = m, holds = Owned\<rparr>"

definition Dataset_of_Ref :: "'v engine \<Rightarrow> 'v Ref \<Rightarrow> 'v Dataset" where
  "Dataset_of_Ref eng r =
     \<lparr>variables = DefaultVariables eng (ncols (view r)), Values = view r,
      holds = View (target r)\<rparr>"

definition Rows :: "'v Dataset \<Rightarrow> nat" where
  "Rows d = nrows (Values d)"

definition Cols :: "'v Dataset \<Rightarrow> nat" where
  "Cols d = ncols (Values d)"

section \<open>Arrays and buffers of the calling runtime\<close>

text \<open>
  What \<^verbatim>\<open>py::array_t<T>\<close> and \<^verbatim>\<open>py::buffer_info\<close> show of an n-dimensional
  array: the element format, the extent of every dimension, the stride of every dimension
  (counted in elements here, in bytes there) and the storage. The number of dimensions is
  the length of the shape.
\<close>

record 'v pybuf =
  format :: string
  shape :: "nat list"
  strides :: "nat list"
  items :: "'v list"

definition ndim :: "'v pybuf \<Rightarrow> nat" where
  "ndim a = length (shape a)"

definition item2 :: "'v pybuf \<Rightarrow> nat \<Rightarrow> nat \<Rightarrow> 'v" where
  "item2 a i j = items a ! (i * (strides a ! 0) + j * (strides a ! 1))"

definition column_of :: "'v pybuf \<Rightarrow> nat \<Rightarrow> 'v list" where
  "column_of a j = map (\<lambda>i. item2 a i j) [0..<shape a ! 0]"

text \<open>
  The flag \<^verbatim>\<open>py::array::f_style\<close> (contiguous, column-major order) as NumPy keeps it:
  set when some extent is zero, or when the strides of all dimensions of extent other
  than one are those of the packed column-major layout. It is the only flag that the
  bindings test, and the only one in the model.
\<close>

fun f_packed :: "nat \<Rightarrow> nat list \<Rightarrow> nat list \<Rightarrow> bool" where
  "f_packed sd [] ss = True"
| "f_packed sd (d # ds) [] = False"
| "f_packed sd (d # ds) (s # ss) =
     (if d = 1 then f_packed sd ds ss else s = sd \<and> f_packed (sd * d) ds ss)"

definition f_style :: nat where
  "f_style = 2"

definition flags :: "'v pybuf \<Rightarrow> nat" where
  "flags a = (if 0 \<in> set (shape a) \<or> f_packed 1 (shape a) (strides a) then f_style else 0)"

text \<open>
  The two argument conversions the bindings ask for, library code that the binding sources
  only call. \<^verbatim>\<open>cast<Matrix>\<close> always builds a new matrix, converting every element to
  Scalar. \<^verbatim>\<open>cast<Eigen::Ref<Matrix const>>\<close> refers to the array itself when its
  elements are Scalars in packed column-major order, and to a converted copy, which the
  conversion keeps, when the element type or the order is another; either way its
  coefficients are those of the array. The converted copy lives as long as the call of
  the bound constructor: it is released when that call returns.
\<close>

definition to_coeffs :: "'v engine \<Rightarrow> 'v pybuf \<Rightarrow> 'v list" where
  "to_coeffs eng a =
     concat (map (\<lambda>j. map (cast_Scalar eng (format a)) (column_of a j)) [0..<shape a ! 1])"

definition cast_Matrix :: "'v engine \<Rightarrow> 'v pybuf \<Rightarrow> 'v Matrix" where
  "cast_Matrix eng a = \<lparr>nrows = shape a ! 0, ncols = shape a ! 1, coeffs = to_coeffs eng a\<rparr>"

definition cast_Ref :: "'v engine \<Rightarrow> 'v pybuf \<Rightarrow> 'v Ref" where
  "cast_Ref eng a =
     \<lparr>target = (if format a = format_descriptor (Scalar eng) \<and> flags a AND f_style \<noteq> 0
                then CallerData else TemporaryCopy),
      view = cast_Matrix eng a\<rparr>"

section \<open>MakeDataset\<close>

text \<open>
  \<^verbatim>\<open>MakeDataset(py::array_t<T>)\<close>, for the element type \<open>T\<close> of the overload: the
  elements of an \<^verbatim>\<open>array_t<T>\<close> are of type \<open>T\<close>, whatever the record says.
\<close>

definition MakeDataset_array :: "'v engine \<Rightarrow> ctype \<Rightarrow> 'v pybuf \<Rightarrow> error + 'v Dataset" where
  "MakeDataset_array eng T array0 =
     (let array = array0\<lparr>format := format_descriptor T\<rparr> in
      if ndim array \<noteq> 2 then
        Inl (runtime_error (''The input array must have exactly two dimensions.'' @ [CHR 0x0A]))
      else if T = Scalar eng \<and> flags array AND f_style \<noteq> 0 then
        Inr (Dataset_of_Ref eng (cast_Ref eng array))
      else
        Inr (Dataset_of_Matrix eng (cast_Matrix eng array)))"

text \<open>
  \<^verbatim>\<open>MakeDataset(std::vector<std::vector<T>> const&)\<close>. The row count is the size of
  \<^verbatim>\<open>values[0]\<close>, read with no check that there is one. Column \<open>i\<close> of the matrix is then
  assigned from a map over the first \<open>rows\<close> elements at \<^verbatim>\<open>values[i].data()\<close>, whatever
  the size of \<^verbatim>\<open>values[i]\<close> is.
\<close>

definition Map_read :: "'a list \<Rightarrow> nat \<Rightarrow> error + 'a list" where
  "Map_read xs n = (if n \<le> length xs then Inr (take n xs) else Inl OutOfBounds)"

fun fill_cols :: "('a \<Rightarrow> 'v) \<Rightarrow> nat \<Rightarrow> 'a list list \<Rightarrow> error + 'v list" where
  "fill_cols f rows [] = Inr []"
| "fill_cols f rows (c # cs) =
     (case Map_read c rows of
        Inl e \<Rightarrow> Inl e
      | Inr xs \<Rightarrow>
          (case fill_cols f rows cs of
             Inl e \<Rightarrow> Inl e
           | Inr rest \<Rightarrow> Inr (map f xs @ rest)))"

definition MakeDataset_vector :: "'v engine \<Rightarrow> ctype \<Rightarrow> 'v list list \<Rightarrow> error + 'v Dataset" where
  "MakeDataset_vector eng T vals =
     (case vals of
        [] \<Rightarrow> Inl OutOfBounds
      | v0 # _ \<Rightarrow>
          (let rows = length v0; cols = length vals in
           case fill_cols (cast_Scalar eng (format_descriptor T)) rows vals of
             Inl e \<Rightarrow> Inl e
           | Inr cs \<Rightarrow> Inr (Dataset_of_Matrix eng \<lparr>nrows = rows, ncols = cols, coeffs = cs\<rparr>)))"

text \<open>
  \<^verbatim>\<open>MakeDataset(py::buffer)\<close>: the same two outcomes as for an array, but the branch is
  taken on the element format alone.
\<close>

definition MakeDataset_buffer :: "'v engine \<Rightarrow> 'v pybuf \<Rightarrow> error + 'v Dataset" where
  "MakeDataset_buffer eng buf =
     (if ndim buf \<noteq> 2 then
        Inl (runtime_error (''The buffer must have two dimensions.'' @ [CHR 0x0A]))
      else if format buf = format_descriptor (Scalar eng) then
        Inr (Dataset_of_Ref eng (cast_Ref eng buf))
      else
        Inr (Dataset_of_Matrix eng (cast_Matrix eng buf)))"

section \<open>The Dataset class as bound\<close>

text \<open>
  Modelled from the spec: \<^verbatim>\<open>Operon::Dataset::GetValues(int)\<close> is engine code; the spec
  makes it the view of one column. The bound lambda takes a C \<^verbatim>\<open>int\<close> and wraps the
  result in an array view of the same elements (\<^verbatim>\<open>MakeView\<close>). An index that names no
  column reads outside the matrix. A method is called on a Dataset after its constructor
  has returned: when the Dataset is a view of the converted copy of its argument, that
  copy is gone, and the column is read from released storage.
\<close>

definition GetValues :: "'v Dataset \<Rightarrow> int \<Rightarrow> error + 'v list" where
  "GetValues self index =
     (if holds self = View TemporaryCopy then Inl UseAfterFree
      else if 0 \<le> index \<and> nat index < Cols self then Inr (col (Values self) (nat index))
      else Inl OutOfBounds)"

text \<open>
  The read-only property \<^verbatim>\<open>Variables\<close> returns a new vector holding copies of the
  Dataset's variables, and the getter of the property \<^verbatim>\<open>VariableNames\<close> their names.
  The setter of that property is engine code of which neither the binding sources nor the
  spec say what it does; it is not modelled.
\<close>

definition Variables :: "'v Dataset \<Rightarrow> Variable list" where
  "Variables self = variables self"

definition VariableNames :: "'v Dataset \<Rightarrow> string list" where
  "VariableNames self = map Name (variables self)"

text \<open>
  The class \<^verbatim>\<open>Range\<close> as bound: built from two sizes, with read-only \<^verbatim>\<open>Start\<close>,
  \<^verbatim>\<open>End\<close> and \<^verbatim>\<open>Size\<close>; the spec makes it a half-open row interval.
\<close>

record Range =
  Start :: nat
  End :: nat

definition Size :: "Range \<Rightarrow> nat" where
  "Size r = End r - Start r"

definition segment :: "'a list \<Rightarrow> Range \<Rightarrow> 'a list" where
  "segment xs r = take (Size r) (drop (Start r) xs)"

definition set_col :: "'v Matrix \<Rightarrow> nat \<Rightarrow> 'v list \<Rightarrow> 'v Matrix" where
  "set_col m j c =
     m\<lparr>coeffs := take (j * nrows m) (coeffs m) @ c @ drop (Suc j * nrows m) (coeffs m)\<rparr>"

text \<open>
  Modelled from the spec: \<^verbatim>\<open>Shuffle\<close>, \<^verbatim>\<open>Normalize\<close> and \<^verbatim>\<open>Standardize\<close> are engine
  code, bound by name only. The spec: Shuffle permutes the row order in place from a
  seed; Normalize rescales one column to the range from 0 to 1 and Standardize to zero
  mean and unit variance, both in place and with the statistics of the rows of a Range.
  The seeded generator is the stream \<open>gen\<close> of its outputs, and the permutation is drawn
  from it by swapping every position, from the last one down, with a position not after
  it. A column that the table does not have, an empty range and a range that ends after
  the last row are outside the table. The numbers are real numbers here: the rounding and
  the special values of the floating type are left out.
\<close>

definition swap :: "nat \<Rightarrow> nat \<Rightarrow> 'a list \<Rightarrow> 'a list" where
  "swap i j xs = xs[i := xs ! j, j := xs ! i]"

fun shuffle :: "(nat \<Rightarrow> nat) \<Rightarrow> nat \<Rightarrow> 'a list \<Rightarrow> 'a list" where
  "shuffle gen 0 xs = xs"
| "shuffle gen (Suc i) xs = shuffle gen i (swap (Suc i) (gen i mod Suc (Suc i)) xs)"

definition permute_rows :: "nat list \<Rightarrow> 'v Matrix \<Rightarrow> 'v Matrix" where
  "permute_rows p m =
     m\<lparr>coeffs := concat (map (\<lambda>j. map (\<lambda>i. col m j ! i) p) [0..<ncols m])\<rparr>"

definition row_order :: "(nat \<Rightarrow> nat) \<Rightarrow> nat \<Rightarrow> nat list" where
  "row_order gen n = shuffle gen (n - 1) [0..<n]"

definition Shuffle :: "(nat \<Rightarrow> nat) \<Rightarrow> 'v Dataset \<Rightarrow> 'v Dataset" where
  "Shuffle gen self =
     self\<lparr>Values := permute_rows (row_order gen (Rows self)) (Values self)\<rparr>"

definition rescale ::
  "(real list \<Rightarrow> real \<Rightarrow> real) \<Rightarrow> nat \<Rightarrow> Range \<Rightarrow> real Dataset \<Rightarrow> error + real Dataset" where
  "rescale f i r self =
     (if i < Cols self \<and> Start r < End r \<and> End r \<le> Rows self then
        Inr (self\<lparr>Values :=
               set_col (Values self) i
                 (map (f (segment (col (Values self) i) r)) (col (Values self) i))\<rparr>)
      else Inl OutOfBounds)"

definition mean :: "real list \<Rightarrow> real" where
  "mean xs = sum_list xs / real (length xs)"

definition variance :: "real list \<Rightarrow> real" where
  "variance xs = mean (map (\<lambda>x. (x - mean xs)\<^sup>2) xs)"

definition normalized :: "real list \<Rightarrow> real \<Rightarrow> real" where
  "normalized seg x = (x - Min (set seg)) / (Max (set seg) - Min (set seg))"

definition standardized :: "real list \<Rightarrow> real \<Rightarrow> real" where
  "standardized seg x = (x - mean seg) / sqrt (variance seg)"

definition Normalize :: "nat \<Rightarrow> Range \<Rightarrow> real Dataset \<Rightarrow> error + real Dataset" where
  "Normalize = rescale normalized"

definition Standardize :: "nat \<Rightarrow> Range \<Rightarrow> real Dataset \<Rightarrow> error + real Dataset" where
  "Standardize = rescale standardized"

text \<open>Row \<open>i\<close> of a matrix: one observation, with its value in every column.\<close>

definition row :: "'v Matrix \<Rightarrow> nat \<Rightarrow> 'v list" where
  "row m i = map (\<lambda>j. col m j ! i) [0..<ncols m]"

text \<open>
  A matrix is well formed when its storage has one coefficient for every row of every
  column.
\<close>

definition well_formed :: "'v Matrix \<Rightarrow> bool" where
  "well_formed m = (length (coeffs m) = ncols m * nrows m)"

section \<open>Individuals and comparators\<close>

text \<open>
  A value of the floating type \<^verbatim>\<open>Operon::Scalar\<close>, with its special values, and the
  order \<^verbatim>\<open><\<close> on it.
\<close>

datatype 'v scalar = Finite 'v | PosInf | NegInf | NaN

fun scalar_less :: "'v::linorder scalar \<Rightarrow> 'v scalar \<Rightarrow> bool" where
  "scalar_less NaN y = False"
| "scalar_less x NaN = False"
| "scalar_less PosInf y = False"
| "scalar_less x NegInf = False"
| "scalar_less NegInf y = True"
| "scalar_less x PosInf = True"
| "scalar_less (Finite a) (Finite b) = (a < b)"

text \<open>
  The class \<^verbatim>\<open>Individual\<close> as bound: the read-write attribute \<^verbatim>\<open>Genotype\<close>, and
  indexing, which reaches the fitness vector. The spec adds the rank and the crowding
  distance that the comparators read.
\<close>

record ('t, 'v) Individual =
  Genotype :: 't
  Fitness :: "'v scalar list"
  Rank :: nat
  Distance :: "'v scalar"

text \<open>
  Modelled from the spec: the constructor \<^verbatim>\<open>Individual(size_t)\<close> is engine code, bound
  as \<^verbatim>\<open>py::init<size_t>()\<close>. The spec: a fitness vector of fixed length, one scalar per
  objective, whose entries are the +infinity sentinel until evaluated. The genotype of a
  new individual is the empty tree, given as \<open>tree\<close>.
\<close>

definition Individual_init :: "'t \<Rightarrow> nat \<Rightarrow> ('t, 'v::zero) Individual" where
  "Individual_init tree nObj =
     \<lparr>Genotype = tree, Fitness = replicate nObj PosInf, Rank = 0, Distance = Finite 0\<rparr>"

text \<open>
  \<^verbatim>\<open>SetFitness\<close> is \<^verbatim>\<open>self[i] = f\<close> and \<^verbatim>\<open>GetFitness\<close> is \<^verbatim>\<open>return self[i]\<close>; the
  indexing is not checked.
\<close>

definition SetFitness :: "('t, 'v) Individual \<Rightarrow> 'v scalar \<Rightarrow> nat \<Rightarrow> error + ('t, 'v) Individual" where
  "SetFitness self f i =
     (if i < length (Fitness self) then Inr (self\<lparr>Fitness := (Fitness self)[i := f]\<rparr>)
      else Inl OutOfBounds)"

definition GetFitness :: "('t, 'v) Individual \<Rightarrow> nat \<Rightarrow> error + 'v scalar" where
  "GetFitness self i =
     (if i < length (Fitness self) then Inr (Fitness self ! i) else Inl OutOfBounds)"

text \<open>A run of \<^verbatim>\<open>SetFitness\<close> calls, each with its value and its index.\<close>

fun SetFitness_all ::
  "('t, 'v) Individual \<Rightarrow> ('v scalar \<times> nat) list \<Rightarrow> error + ('t, 'v) Individual" where
  "SetFitness_all self [] = Inr self"
| "SetFitness_all self ((f, i) # rest) =
     (case SetFitness self f i of Inl e \<Rightarrow> Inl e | Inr self' \<Rightarrow> SetFitness_all self' rest)"

text \<open>
  Modelled from the spec: the call operators of \<^verbatim>\<open>SingleObjectiveComparison\<close> and
  \<^verbatim>\<open>CrowdedComparison\<close> are engine code, bound as \<^verbatim>\<open>__call__\<close>. The spec: the first
  orders two individuals by a single fitness value, the lower the better; the second
  by the lower front rank first, and by the higher crowding distance when the ranks are
  equal. A call is given the two individuals and hands them back with its verdict.
\<close>

definition SingleObjectiveComparison ::
  "nat \<Rightarrow> ('t, 'v::linorder) Individual \<Rightarrow> ('t, 'v) Individual \<Rightarrow> error + bool" where
  "SingleObjectiveComparison idx lhs rhs =
     (if idx < length (Fitness lhs) \<and> idx < length (Fitness rhs)
      then Inr (scalar_less (Fitness lhs ! idx) (Fitness rhs ! idx))
      else Inl OutOfBounds)"

definition CrowdedComparison ::
  "('t, 'v::linorder) Individual \<Rightarrow> ('t, 'v) Individual \<Rightarrow> error + bool" where
  "CrowdedComparison lhs rhs =
     Inr (Rank lhs < Rank rhs \<or> (Rank lhs = Rank rhs \<and> scalar_less (Distance rhs) (Distance lhs)))"

datatype comparator = SingleObjective nat | Crowded

fun comparator_call ::
  "comparator \<Rightarrow> ('t, 'v::linorder) Individual \<times> ('t, 'v) Individual \<Rightarrow>
     (error + bool) \<times> ('t, 'v) Individual \<times> ('t, 'v) Individual" where
  "comparator_call (SingleObjective idx) (lhs, rhs) =
     (SingleObjectiveComparison idx lhs rhs, lhs, rhs)"
| "comparator_call Crowded (lhs, rhs) = (CrowdedComparison lhs rhs, lhs, rhs)"

section \<open>GeneticAlgorithmConfig\<close>

text \<open>
  The class as bound: ten attributes, each declared with \<^verbatim>\<open>def_readwrite\<close>, and a
  constructor of ten named arguments that assigns each to its attribute. The sizes are
  64-bit unsigned integers.
\<close>

record GeneticAlgorithmConfig =
  Generations :: "64 word"
  Evaluations :: "64 word"
  Iterations :: "64 word"
  PopulationSize :: "64 word"
  PoolSize :: "64 word"
  CrossoverProbability :: real
  MutationProbability :: real
  Seed :: "64 word"
  Epsilon :: real
  TimeLimit :: "64 word"

definition GeneticAlgorithmConfig_init ::
  "64 word \<Rightarrow> 64 word \<Rightarrow> 64 word \<Rightarrow> 64 word \<Rightarrow> 64 word \<Rightarrow> real \<Rightarrow> real \<Rightarrow> real \<Rightarrow>
     64 word \<Rightarrow> 64 word \<Rightarrow> GeneticAlgorithmConfig" where
  "GeneticAlgorithmConfig_init gen evals iter popsize poolsize pc pm epsilon seed timelimit =
     \<lparr>Generations = gen, Evaluations = evals, Iterations = iter, PopulationSize = popsize,
      PoolSize = poolsize, CrossoverProbability = pc, MutationProbability = pm,
      Seed = seed, Epsilon = epsilon, TimeLimit = timelimit\<rparr>"

text \<open>An assignment to one attribute of a config object, as \<^verbatim>\<open>def_readwrite\<close> allows.\<close>

datatype assignment =
    SetGenerations "64 word"
  | SetEvaluations "64 word"
  | SetIterations "64 word"
  | SetPopulationSize "64 word"
  | SetPoolSize "64 word"
  | SetCrossoverProbability real
  | SetMutationProbability real
  | SetSeed "64 word"
  | SetEpsilon real
  | SetTimeLimit "64 word"

fun setattr :: "GeneticAlgorithmConfig \<Rightarrow> assignment \<Rightarrow> GeneticAlgorithmConfig" where
  "setattr c (SetGenerations v) = c\<lparr>Generations := v\<rparr>"
| "setattr c (SetEvaluations v) = c\<lparr>Evaluations := v\<rparr>"
| "setattr c (SetIterations v) = c\<lparr>Iterations := v\<rparr>"
| "setattr c (SetPopulationSize v) = c\<lparr>PopulationSize := v\<rparr>"
| "setattr c (SetPoolSize v) = c\<lparr>PoolSize := v\<rparr>"
| "setattr c (SetCrossoverProbability v) = c\<lparr>CrossoverProbability := v\<rparr>"
| "setattr c (SetMutationProbability v) = c\<lparr>MutationProbability := v\<rparr>"
| "setattr c (SetSeed v) = c\<lparr>Seed := v\<rparr>"
| "setattr c (SetEpsilon v) = c\<lparr>Epsilon := v\<rparr>"
| "setattr c (SetTimeLimit v) = c\<lparr>TimeLimit := v\<rparr>"

text \<open>Reading an attribute by its name; what an assignment names and what it stores.\<close>

datatype attribute =
    AttrGenerations
  | AttrEvaluations
  | AttrIterations
  | AttrPopulationSize
  | AttrPoolSize
  | AttrCrossoverProbability
  | AttrMutationProbability
  | AttrSeed
  | AttrEpsilon
  | AttrTimeLimit

datatype attr_value = SizeValue "64 word" | DoubleValue real

fun getattr :: "GeneticAlgorithmConfig \<Rightarrow> attribute \<Rightarrow> attr_value" where
  "getattr c AttrGenerations = SizeValue (Generations c)"
| "getattr c AttrEvaluations = SizeValue (Evaluations c)"
| "getattr c AttrIterations = SizeValue (Iterations c)"
| "getattr c AttrPopulationSize = SizeValue (PopulationSize c)"
| "getattr c AttrPoolSize = SizeValue (PoolSize c)"
| "getattr c AttrCrossoverProbability = DoubleValue (CrossoverProbability c)"
| "getattr c AttrMutationProbability = DoubleValue (MutationProbability c)"
| "getattr c AttrSeed = SizeValue (Seed c)"
| "getattr c AttrEpsilon = DoubleValue (Epsilon c)"
| "getattr c AttrTimeLimit = SizeValue (TimeLimit c)"

fun attribute_of :: "assignment \<Rightarrow> attribute" where
  "attribute_of (SetGenerations v) = AttrGenerations"
| "attribute_of (SetEvaluations v) = AttrEvaluations"
| "attribute_of (SetIterations v) = AttrIterations"
| "attribute_of (SetPopulationSize v) = AttrPopulationSize"
| "attribute_of (SetPoolSize v) = AttrPoolSize"
| "attribute_of (SetCrossoverProbability v) = AttrCrossoverProbability"
| "attribute_of (SetMutationProbability v) = AttrMutationProbability"
| "attribute_of (SetSeed v) = AttrSeed"
| "attribute_of (SetEpsilon v) = AttrEpsilon"
| "attribute_of (SetTimeLimit v) = AttrTimeLimit"

fun value_of :: "assignment \<Rightarrow> attr_value" where
  "value_of (SetGenerations v) = SizeValue v"
| "value_of (SetEvaluations v) = SizeValue v"
| "value_of (SetIterations v) = SizeValue v"
| "value_of (SetPopulationSize v) = SizeValue v"
| "value_of (SetPoolSize v) = SizeValue v"
| "value_of (SetCrossoverProbability v) = DoubleValue v"
| "value_of (SetMutationProbability v) = DoubleValue v"
| "value_of (SetSeed v) = SizeValue v"
| "value_of (SetEpsilon v) = DoubleValue v"
| "value_of (SetTimeLimit v) = SizeValue v"

section \<open>A concrete engine\<close>

text \<open>
  An engine built with \<^verbatim>\<open>double\<close> as Scalar, to run the definitions on. Columns
  are named X1, X2 and so on, and names are hashed with the 64-bit FNV-1a function. For
  buffers of integers: the conversion of a 64-bit integer to \<^verbatim>\<open>double\<close> keeps 53
  significant bits and rounds to the nearest value, to the even one of two nearest.
\<close>

function bit_length :: "int \<Rightarrow> nat" where
  "bit_length n = (if n \<le> 0 then 0 else Suc (bit_length (n div 2)))"
  by pat_completeness auto
termination
  by (relation "measure nat") auto

definition round_to_bits :: "nat \<Rightarrow> int \<Rightarrow> int" where
  "round_to_bits p n =
     (let a = \<bar>n\<bar>; e = bit_length a - p; q = a div 2 ^ e; r = a mod 2 ^ e;
          q' = (if 2 * r > 2 ^ e \<or> (2 * r = 2 ^ e \<and> odd q) then q + 1 else q)
      in sgn n * (q' * 2 ^ e))"

fun decimal :: "nat \<Rightarrow> string" where
  "decimal n = (if n < 10 then [char_of (48 + n)] else decimal (n div 10) @ [char_of (48 + n mod 10)])"

definition fnv1a :: "string \<Rightarrow> 64 word" where
  "fnv1a s = fold (\<lambda>c h. (h XOR of_char c) * 1099511628211) s 14695981039346656037"

definition int64_to_double :: "string \<Rightarrow> int \<Rightarrow> int" where
  "int64_to_double fmt n = round_to_bits 53 n"

definition double_engine :: "(string \<Rightarrow> 'v \<Rightarrow> 'v) \<Rightarrow> 'v engine" where
  "double_engine conv =
     \<lparr>Scalar = Double, static_cast = conv, Hasher = fnv1a,
      DefaultName = (\<lambda>i. ''X'' @ decimal (Suc i))\<rparr>"

text \<open>The same engine for data that are of type \<^verbatim>\<open>double\<close> already.\<close>

abbreviation real_engine :: "real engine" where
  "real_engine \<equiv> double_engine (\<lambda>fmt x. x)"

text \<open>Building a Dataset from a buffer and reading a column back.\<close>

definition read_back :: "'v engine \<Rightarrow> 'v pybuf \<Rightarrow> int \<Rightarrow> error + 'v list" where
  "read_back eng buf index =
     (case MakeDataset_buffer eng buf of Inl e \<Rightarrow> Inl e | Inr d \<Rightarrow> GetValues d index)"

section \<open>Facts about the models\<close>

lemma double_engine_sel [simp]:
  "Scalar (double_engine conv) = Double"
  "static_cast (double_engine conv) = conv"
  "Hasher (double_engine conv) = fnv1a"
  by (simp_all add: double_engine_def)

lemma ndim_format [simp]: "ndim (a\<lparr>format := f\<rparr>) = ndim a"
  by (simp add: ndim_def)

lemma fill_cols_Inr:
  "\<forall>c\<in>set cs. rows \<le> length c \<Longrightarrow>
     fill_cols f rows cs = Inr (concat (map (\<lambda>c. map f (take rows c)) cs))"
  by (induction cs) (simp_all add: Map_read_def)

lemma fill_cols_Inl:
  "\<exists>c\<in>set cs. length c < rows \<Longrightarrow> fill_cols f rows cs = Inl OutOfBounds"
proof (induction cs)
  case Nil
  then show ?case by simp
next
  case (Cons c cs)
  show ?case
  proof (cases "length c < rows")
    case True
    then show ?thesis by (simp add: Map_read_def)
  next
    case False
    with Cons.prems have "\<exists>c\<in>set cs. length c < rows" by auto
    with Cons.IH have "fill_cols f rows cs = Inl OutOfBounds" by blast
    then show ?thesis by (simp add: Map_read_def)
  qed
qed

lemma concat_block:
  "\<forall>x\<in>set xss. length x = n \<Longrightarrow> j < length xss \<Longrightarrow>
     take n (drop (j * n) (concat xss)) = xss ! j"
proof (induction xss arbitrary: j)
  case Nil
  then show ?case by simp
next
  case (Cons x xss)
  show ?case
  proof (cases j)
    case 0
    with Cons.prems show ?thesis by simp
  next
    case (Suc k)
    with Cons.prems have "take n (drop (k * n) (concat xss)) = xss ! k"
      by (intro Cons.IH) auto
    with Suc Cons.prems show ?thesis by simp
  qed
qed



text \<open>
  The conversion of an integer to \<^verbatim>\<open>double\<close> is exact on every integer of fewer than 54
  bits, and rounds \<open>2\<^sup>5\<^sup>3 + 1\<close>.
\<close>

declare bit_length.simps [simp del]





text \<open>
  Which storage the Dataset of each constructor holds: the array constructor looks at the
  element type and at the layout, the buffer constructor at the element format only.
\<close>

lemma MakeDataset_array_storage:
  assumes "ndim a = 2"
  shows "MakeDataset_array eng T a =
           Inr \<lparr>variables = DefaultVariables eng (shape a ! 1),
                Values = cast_Matrix eng (a\<lparr>format := format_descriptor T\<rparr>),
                holds = (if T = Scalar eng \<and> flags a AND f_style \<noteq> 0
                         then View CallerData else Owned)\<rparr>"
  using assms
  by (simp add: MakeDataset_array_def Let_def Dataset_of_Ref_def Dataset_of_Matrix_def
      cast_Ref_def cast_Matrix_def flags_def)

lemma MakeDataset_buffer_storage:
  assumes "ndim a = 2"
  shows "MakeDataset_buffer eng a =
           Inr \<lparr>variables = DefaultVariables eng (shape a ! 1),
                Values = cast_Matrix eng a,
                holds = (if format a = format_descriptor (Scalar eng)
                         then View (if flags a AND f_style \<noteq> 0 then CallerData else TemporaryCopy)
                         else Owned)\<rparr>"
  using assms
  by (simp add: MakeDataset_buffer_def Dataset_of_Ref_def Dataset_of_Matrix_def
      cast_Ref_def cast_Matrix_def)

text \<open>
  Reading from the Dataset that the buffer constructor builds from a row-major buffer of
  Scalar elements: the Dataset is a view of the converted copy, which is gone.
\<close>

lemma read_back_released:
  "read_back (double_engine int64_to_double)
     \<lparr>format = ''d'', shape = [2, 2], strides = [2, 1], items = [1, 2, 3, 4]\<rparr> 1 =
     Inl UseAfterFree"
  by (simp add: read_back_def MakeDataset_buffer_def ndim_def GetValues_def
      Dataset_of_Ref_def cast_Ref_def flags_def f_style_def eval_nat_numeral)

lemma length_swap [simp]: "length (swap i j xs) = length xs"
  by (simp add: swap_def)

lemma mset_swap_list: "i < length xs \<Longrightarrow> j < length xs \<Longrightarrow> mset (swap i j xs) = mset xs"
  unfolding swap_def by (rule mset_swap)

lemma length_shuffle [simp]: "length (shuffle gen k xs) = length xs"
  by (induction k arbitrary: xs) simp_all

lemma mset_shuffle: "k < length xs \<Longrightarrow> mset (shuffle gen k xs) = mset xs"
proof (induction k arbitrary: xs)
  case 0
  then show ?case by simp
next
  case (Suc k)
  have "gen k mod Suc (Suc k) < Suc (Suc k)"
    by (rule mod_less_divisor) simp
  with Suc.prems have "gen k mod Suc (Suc k) < length xs"
    by linarith
  with Suc.prems have "mset (swap (Suc k) (gen k mod Suc (Suc k)) xs) = mset xs"
    by (simp add: mset_swap_list)
  moreover have "mset (shuffle gen k (swap (Suc k) (gen k mod Suc (Suc k)) xs)) =
      mset (swap (Suc k) (gen k mod Suc (Suc k)) xs)"
    using Suc.prems by (intro Suc.IH) simp
  ultimately show ?case by simp
qed

lemma mset_row_order: "mset (row_order gen n) = mset [0..<n]"
proof (cases n)
  case 0
  then show ?thesis by (simp add: row_order_def)
next
  case (Suc m)
  then show ?thesis by (simp add: row_order_def mset_shuffle del: upt_Suc)
qed

lemma length_row_order [simp]: "length (row_order gen n) = n"
  by (simp add: row_order_def)

lemma col_permute_rows:
  assumes "length p = nrows m" and "j < ncols m"
  shows "col (permute_rows p m) j = map (\<lambda>i. col m j ! i) p"
proof -
  let ?blocks = "map (\<lambda>j. map (\<lambda>i. col m j ! i) p) [0..<ncols m]"
  have "\<forall>x\<in>set ?blocks. length x = nrows m"
    using assms(1) by auto
  moreover have "j < length ?blocks"
    using assms(2) by simp
  ultimately have "take (nrows m) (drop (j * nrows m) (concat ?blocks)) = ?blocks ! j"
    by (rule concat_block)
  with assms(2) show ?thesis
    by (simp add: col_def permute_rows_def)
qed

lemma length_concat_blocks:
  "\<forall>x\<in>set xss. length x = n \<Longrightarrow> length (concat xss) = length xss * n"
  by (induction xss) simp_all

lemma well_formed_permute_rows:
  assumes "length p = nrows m"
  shows "well_formed (permute_rows p m)"
proof -
  let ?blocks = "map (\<lambda>j. map (\<lambda>i. col m j ! i) p) [0..<ncols m]"
  have "\<forall>x\<in>set ?blocks. length x = nrows m"
    using assms by auto
  then have "length (concat ?blocks) = length ?blocks * nrows m"
    by (rule length_concat_blocks)
  then show ?thesis
    by (simp add: well_formed_def permute_rows_def)
qed

lemma col_set_col:
  assumes wf: "well_formed m" and i: "i < ncols m" and j: "j < ncols m" and c: "length c = nrows m"
  shows "col (set_col m i c) j = (if j = i then c else col m j)"
proof -
  let ?n = "nrows m" and ?cs = "coeffs m"
  have len: "length ?cs = ncols m * ?n"
    using wf by (simp add: well_formed_def)
  have ile: "Suc i * ?n \<le> length ?cs"
    using i len by (metis Suc_leI mult_le_mono1)
  then have ile': "i * ?n \<le> length ?cs" by simp
  consider "j = i" | "j < i" | "i < j" by linarith
  then show ?thesis
  proof cases
    case 1
    with ile' c show ?thesis
      by (simp add: col_def set_col_def)
  next
    case 2
    then have "Suc j * ?n \<le> i * ?n"
      by (metis Suc_leI mult_le_mono1)
    then have le: "j * ?n + ?n \<le> i * ?n" by simp
    let ?A = "take (i * ?n) ?cs"
    have lenA: "length ?A = i * ?n"
      using ile' by simp
    have "take ?n (drop (j * ?n) (?A @ c @ drop (Suc i * ?n) ?cs)) = take ?n (drop (j * ?n) ?A)"
      using le lenA by simp
    also have "drop (j * ?n) ?A = take (i * ?n - j * ?n) (drop (j * ?n) ?cs)"
      by (rule drop_take)
    also have "take ?n (take (i * ?n - j * ?n) (drop (j * ?n) ?cs)) = take ?n (drop (j * ?n) ?cs)"
      using le by (simp add: min_def)
    finally show ?thesis
      using 2 by (simp add: col_def set_col_def)
  next
    case 3
    then have "Suc i * ?n \<le> j * ?n"
      by (metis Suc_leI mult_le_mono1)
    then have le: "i * ?n + ?n \<le> j * ?n" by simp
    let ?A = "take (i * ?n) ?cs"
    have lenA: "length ?A = i * ?n"
      using ile' by simp
    have "i * ?n \<le> j * ?n"
      using 3 by simp
    then have "drop (j * ?n) (?A @ c @ drop (Suc i * ?n) ?cs) =
            drop (j * ?n - i * ?n) (c @ drop (Suc i * ?n) ?cs)"
      using lenA by (simp del: mult_le_cancel2)
    also have "\<dots> = drop (j * ?n - i * ?n - ?n) (drop (Suc i * ?n) ?cs)"
      using le c by simp
    also have "\<dots> = drop (j * ?n - i * ?n - ?n + Suc i * ?n) ?cs"
      by (simp add: add.commute)
    also have "j * ?n - i * ?n - ?n + Suc i * ?n = j * ?n"
      using le by simp
    finally show ?thesis
      using 3 by (simp add: col_def set_col_def)
  qed
qed

lemma well_formed_set_col:
  assumes "well_formed m" and "i < ncols m" and "length c = nrows m"
  shows "well_formed (set_col m i c)"
proof -
  have len: "length (coeffs m) = ncols m * nrows m"
    using assms(1) by (simp add: well_formed_def)
  have "Suc i * nrows m \<le> ncols m * nrows m"
    using assms(2) by (metis Suc_leI mult_le_mono1)
  then have "i * nrows m + nrows m + (ncols m * nrows m - Suc i * nrows m) = ncols m * nrows m"
    by simp
  with assms(3) len show ?thesis
    by (simp add: well_formed_def set_col_def min_def)
qed

lemma length_col: "well_formed m \<Longrightarrow> j < ncols m \<Longrightarrow> length (col m j) = nrows m"
proof -
  assume wf: "well_formed m" and j: "j < ncols m"
  have "Suc j * nrows m \<le> ncols m * nrows m"
    using j by (metis Suc_leI mult_le_mono1)
  with wf show ?thesis
    by (simp add: col_def well_formed_def)
qed

lemma SetFitness_all_frame:
  "SetFitness_all ind sets = Inr ind' \<Longrightarrow> i \<notin> snd ` set sets \<Longrightarrow>
     length (Fitness ind') = length (Fitness ind) \<and> Fitness ind' ! i = Fitness ind ! i"
proof (induction sets arbitrary: ind)
  case Nil
  then show ?case by simp
next
  case (Cons s sets)
  obtain f k where s: "s = (f, k)" by (cases s)
  from Cons.prems s have k: "k < length (Fitness ind)" "k \<noteq> i"
    and rest: "SetFitness_all (ind\<lparr>Fitness := (Fitness ind)[k := f]\<rparr>) sets = Inr ind'"
    by (auto simp: SetFitness_def split: if_splits)
  from Cons.prems have "i \<notin> snd ` set sets" by auto
  from Cons.IH [OF rest this] k show ?case by simp
qed

lemma rescale_frame:
  assumes "rescale f i r d = Inr d'"
  shows "variables d' = variables d \<and> nrows (Values d') = nrows (Values d) \<and>
         ncols (Values d') = ncols (Values d) \<and> holds d' = holds d"
  using assms by (auto simp: rescale_def set_col_def split: if_splits)

lemma mset_col_permute_rows:
  assumes wf: "well_formed m" and j: "j < ncols m" and p: "mset p = mset [0..<nrows m]"
  shows "mset (col (permute_rows p m) j) = mset (col m j)"
proof -
  have "length p = nrows m"
    using p by (metis length_upt minus_nat.diff_0 size_mset)
  then have "col (permute_rows p m) j = map (\<lambda>i. col m j ! i) p"
    using j by (rule col_permute_rows)
  then have "mset (col (permute_rows p m) j) = image_mset (\<lambda>i. col m j ! i) (mset p)"
    by simp
  also have "\<dots> = mset (map (\<lambda>i. col m j ! i) [0..<nrows m])"
    by (simp add: p)
  also have "map (\<lambda>i. col m j ! i) [0..<nrows m] = col m j"
    using length_col [OF wf j] by (metis map_nth)
  finally show ?thesis .
qed

lemma rescale_columns:
  assumes r: "rescale f i r d = Inr d'" and wf: "well_formed (Values d)"
    and j: "j < Cols d" and ne: "j \<noteq> i"
  shows "col (Values d') j = col (Values d) j"
proof -
  from r have i: "i < ncols (Values d)"
    and d': "Values d' = set_col (Values d) i
                (map (f (segment (col (Values d) i) r)) (col (Values d) i))"
    by (auto simp: rescale_def Cols_def split: if_splits)
  have "length (map (f (segment (col (Values d) i) r)) (col (Values d) i)) = nrows (Values d)"
    using length_col [OF wf i] by simp
  from col_set_col [OF wf i _ this, of j] j ne d' show ?thesis
    by (simp add: Cols_def)
qed

lemma row_permute_rows:
  assumes "length p = nrows m" and "k < nrows m"
  shows "row (permute_rows p m) k = row m (p ! k)"
proof -
  have "col (permute_rows p m) j ! k = col m j ! (p ! k)" if "j < ncols m" for j
    using col_permute_rows [OF assms(1) that] assms by simp
  moreover have "ncols (permute_rows p m) = ncols m"
    by (simp add: permute_rows_def)
  ultimately show ?thesis
    by (simp add: row_def)
qed

lemma rescale_column:
  assumes r: "rescale f i r d = Inr d'" and wf: "well_formed (Values d)"
  shows "col (Values d') i = map (f (segment (col (Values d) i) r)) (col (Values d) i) \<and>
         well_formed (Values d')"
proof -
  from r have i: "i < ncols (Values d)"
    and d': "Values d' = set_col (Values d) i
                (map (f (segment (col (Values d) i) r)) (col (Values d) i))"
    by (auto simp: rescale_def Cols_def split: if_splits)
  have len: "length (map (f (segment (col (Values d) i) r)) (col (Values d) i)) = nrows (Values d)"
    using length_col [OF wf i] by simp
  from col_set_col [OF wf i i len] well_formed_set_col [OF wf i len] d' show ?thesis
    by simp
qed

text \<open>
  What the two rescalings reach on the rows of the range they take their statistics from:
  the normalized values lie between 0 and 1 and take both ends, the standardized values
  have mean 0 and variance 1.
\<close>

lemma normalized_range:
  assumes "x \<in> set seg" and "Min (set seg) < Max (set seg)"
  shows "0 \<le> normalized seg x \<and> normalized seg x \<le> 1"
proof -
  have "Min (set seg) \<le> x" "x \<le> Max (set seg)"
    using assms(1) by simp_all
  with assms(2) show ?thesis
    by (simp add: normalized_def)
qed

lemma normalized_ends:
  assumes "Min (set seg) < Max (set seg)"
  shows "normalized seg (Min (set seg)) = 0 \<and> normalized seg (Max (set seg)) = 1"
  using assms by (simp add: normalized_def)

lemma sum_list_shift_scale:
  "sum_list (map (\<lambda>x. (x - m) / s) xs) = (sum_list xs - real (length xs) * m) / s"
  by (induction xs) (simp_all add: add_divide_distrib diff_divide_distrib algebra_simps)

lemma mean_standardized:
  assumes "seg \<noteq> []"
  shows "mean (map (standardized seg) seg) = 0"
proof -
  have "sum_list (map (standardized seg) seg) =
          (sum_list seg - real (length seg) * mean seg) / sqrt (variance seg)"
    unfolding standardized_def by (rule sum_list_shift_scale)
  also have "real (length seg) * mean seg = sum_list seg"
    using assms by (simp add: mean_def)
  finally show ?thesis
    by (simp add: mean_def)
qed

lemma variance_standardized:
  assumes "seg \<noteq> []" and "0 < variance seg"
  shows "variance (map (standardized seg) seg) = 1"
proof -
  let ?s = "sqrt (variance seg)"
  have s2: "?s\<^sup>2 = variance seg"
    using assms(2) by simp
  have "variance (map (standardized seg) seg) =
          mean (map (\<lambda>x. ((x - mean seg) / ?s)\<^sup>2) seg)"
    using mean_standardized [OF assms(1)]
    by (simp add: variance_def comp_def standardized_def)
  also have "\<dots> = sum_list (map (\<lambda>x. ((x - mean seg)\<^sup>2 - 0) / ?s\<^sup>2) seg) / real (length seg)"
    by (simp add: mean_def power_divide)
  also have "sum_list (map (\<lambda>x. ((x - mean seg)\<^sup>2 - 0) / ?s\<^sup>2) seg) =
               sum_list (map (\<lambda>x. (x - mean seg)\<^sup>2) seg) / ?s\<^sup>2"
    using sum_list_shift_scale [of 0 "?s\<^sup>2" "map (\<lambda>x. (x - mean seg)\<^sup>2) seg"]
    by (simp add: comp_def)
  also have "sum_list (map (\<lambda>x. (x - mean seg)\<^sup>2) seg) / ?s\<^sup>2 / real (length seg) =
               variance seg / ?s\<^sup>2"
    by (simp add: variance_def mean_def)
  also have "\<dots> = 1"
    using assms(2) s2 by simp
  finally show ?thesis .
qed

section \<open>Construction from an array or a buffer\<close>

text \<open>
  Claim C1. An array or a buffer whose number of dimensions is not two is refused, by both
  constructors, with the runtime error that names the dimensions, and no Dataset comes
  back; with two dimensions both constructors return a Dataset. The runtime error with
  this message is what the spec calls \<open>InvalidShape\<close>.
\<close>

theorem MakeDataset_dimensions:
  "(ndim a \<noteq> 2 \<longrightarrow>
      MakeDataset_array eng T a =
        Inl (runtime_error (''The input array must have exactly two dimensions.'' @ [CHR 0x0A])) \<and>
      MakeDataset_buffer eng a =
        Inl (runtime_error (''The buffer must have two dimensions.'' @ [CHR 0x0A]))) \<and>
   (ndim a = 2 \<longrightarrow>
      (\<exists>d. MakeDataset_array eng T a = Inr d) \<and> (\<exists>d. MakeDataset_buffer eng a = Inr d))"
  by (simp add: MakeDataset_array_def MakeDataset_buffer_def Let_def)

theorem MakeDataset_dimensions_witness:
  "ndim \<lparr>format = ''d'', shape = [2, 2, 2], strides = [4, 2, 1],
         items = [1, 2, 3, 4, 5, 6, 7, 8 :: int]\<rparr> \<noteq> 2 \<and>
   MakeDataset_array (double_engine int64_to_double) Double
       \<lparr>format = ''d'', shape = [2, 2, 2], strides = [4, 2, 1],
        items = [1, 2, 3, 4, 5, 6, 7, 8]\<rparr> =
     Inl (runtime_error (''The input array must have exactly two dimensions.'' @ [CHR 0x0A])) \<and>
   MakeDataset_buffer (double_engine int64_to_double)
       \<lparr>format = ''d'', shape = [2, 2, 2], strides = [4, 2, 1],
        items = [1, 2, 3, 4, 5, 6, 7, 8]\<rparr> =
     Inl (runtime_error (''The buffer must have two dimensions.'' @ [CHR 0x0A])) \<and>
   ndim \<lparr>format = ''d'', shape = [2, 2], strides = [1, 2], items = [1, 2, 3, 4 :: int]\<rparr> = 2 \<and>
   (\<exists>d. MakeDataset_array (double_engine int64_to_double) Double
          \<lparr>format = ''d'', shape = [2, 2], strides = [1, 2], items = [1, 2, 3, 4]\<rparr> = Inr d) \<and>
   (\<exists>d. MakeDataset_buffer (double_engine int64_to_double)
          \<lparr>format = ''d'', shape = [2, 2], strides = [1, 2], items = [1, 2, 3, 4]\<rparr> = Inr d)"
  using
    MakeDataset_dimensions [of "\<lparr>format = ''d'', shape = [2, 2, 2], strides = [4, 2, 1],
        items = [1, 2, 3, 4, 5, 6, 7, 8 :: int]\<rparr>" "double_engine int64_to_double" Double]
    MakeDataset_dimensions [of "\<lparr>format = ''d'', shape = [2, 2], strides = [1, 2],
        items = [1, 2, 3, 4 :: int]\<rparr>" "double_engine int64_to_double" Double]
  by (simp add: ndim_def)

section \<open>Construction from a list of columns\<close>

text \<open>
  Claim C10, as stated: the constructor from a list of columns is well defined only when
  the list is not empty and every column has the length of the first. It is not so: a
  column longer than the first is read in bounds, and its further elements are left out.
\<close>

theorem MakeDataset_vector_longer_column:
  "MakeDataset_vector (double_engine int64_to_double) Double [[1, 2], [3, 4, 5]] =
     Inr (Dataset_of_Matrix (double_engine int64_to_double)
            \<lparr>nrows = 2, ncols = 2, coeffs = [1, 2, 3, 4]\<rparr>) \<and>
   length [3, 4, 5 :: int] \<noteq> length [1, 2 :: int]"
  by (simp add: MakeDataset_vector_def Map_read_def cast_Scalar_def eval_nat_numeral)

text \<open>
  Claim C10, amended: the constructor from a list of columns stays in bounds exactly when
  the list is not empty and every column is at least as long as the first; the matrix then
  holds, column by column, the first elements of each column, as many as the first column
  has. With an empty list or a column shorter than the first it reads out of bounds.
\<close>

theorem MakeDataset_vector_defined:
  "MakeDataset_vector eng T vals =
     (if vals \<noteq> [] \<and> (\<forall>c\<in>set vals. length (hd vals) \<le> length c) then
        Inr (Dataset_of_Matrix eng
               \<lparr>nrows = length (hd vals), ncols = length vals,
                coeffs = concat (map (\<lambda>c. map (cast_Scalar eng (format_descriptor T))
                                            (take (length (hd vals)) c)) vals)\<rparr>)
      else Inl OutOfBounds)"
proof (cases vals)
  case Nil
  then show ?thesis by (simp add: MakeDataset_vector_def)
next
  case (Cons v0 rest)
  let ?f = "cast_Scalar eng (format_descriptor T)"
  have unfold: "MakeDataset_vector eng T vals =
      (case fill_cols ?f (length v0) vals of
         Inl e \<Rightarrow> Inl e
       | Inr cs \<Rightarrow> Inr (Dataset_of_Matrix eng
                          \<lparr>nrows = length v0, ncols = length vals, coeffs = cs\<rparr>))"
    unfolding MakeDataset_vector_def Cons
    by (simp add: Let_def del: fill_cols.simps split: sum.split)
  have hd: "hd vals = v0" "vals \<noteq> []"
    using Cons by simp_all
  show ?thesis
  proof (cases "\<forall>c\<in>set vals. length v0 \<le> length c")
    case True
    have "fill_cols ?f (length v0) vals =
            Inr (concat (map (\<lambda>c. map ?f (take (length v0) c)) vals))"
      by (rule fill_cols_Inr [OF True])
    with True show ?thesis
      by (simp add: unfold hd)
  next
    case False
    then have "\<exists>c\<in>set vals. length c < length v0"
      by (auto simp: not_le)
    then have "fill_cols ?f (length v0) vals = Inl OutOfBounds"
      by (rule fill_cols_Inl)
    with False show ?thesis
      by (simp add: unfold hd)
  qed
qed

theorem MakeDataset_vector_defined_witness:
  "MakeDataset_vector (double_engine int64_to_double) Double [[1, 2], [3, 4]] =
     Inr (Dataset_of_Matrix (double_engine int64_to_double)
            \<lparr>nrows = 2, ncols = 2, coeffs = [1, 2, 3, 4]\<rparr>) \<and>
   MakeDataset_vector (double_engine int64_to_double) Double [[1, 2], [3]] = Inl OutOfBounds \<and>
   MakeDataset_vector (double_engine int64_to_double) Double [] = Inl OutOfBounds"
  using
    MakeDataset_vector_defined [of "double_engine int64_to_double" Double "[[1, 2], [3, 4]]"]
    MakeDataset_vector_defined [of "double_engine int64_to_double" Double "[[1, 2], [3]]"]
    MakeDataset_vector_defined [of "double_engine int64_to_double" Double "[]"]
  by (simp add: cast_Scalar_def eval_nat_numeral)

section \<open>Reference or copy\<close>

text \<open>
  Claim C5. An input that is not both of the Scalar element type and in packed
  column-major order is to be copied into a matrix that the Dataset owns. The array
  constructor does so. The buffer constructor does not look at the layout: for a buffer of
  Scalar elements in row-major order it builds the Dataset from a reference, and the
  Dataset is a view of storage it does not own, where the array constructor, given the
  same data, returns a Dataset that owns its matrix.
\<close>

theorem MakeDataset_buffer_row_major:
  "MakeDataset_buffer (double_engine int64_to_double)
       \<lparr>format = ''d'', shape = [2, 2], strides = [2, 1], items = [1, 2, 3, 4]\<rparr> =
     Inr \<lparr>variables = DefaultVariables (double_engine int64_to_double) 2,
          Values = \<lparr>nrows = 2, ncols = 2, coeffs = [1, 3, 2, 4]\<rparr>,
          holds = View TemporaryCopy\<rparr> \<and>
   MakeDataset_array (double_engine int64_to_double) Double
       \<lparr>format = ''d'', shape = [2, 2], strides = [2, 1], items = [1, 2, 3, 4]\<rparr> =
     Inr \<lparr>variables = DefaultVariables (double_engine int64_to_double) 2,
          Values = \<lparr>nrows = 2, ncols = 2, coeffs = [1, 3, 2, 4]\<rparr>,
          holds = Owned\<rparr>"
  by (simp add: MakeDataset_buffer_def MakeDataset_array_def ndim_def Let_def
      Dataset_of_Ref_def Dataset_of_Matrix_def cast_Ref_def cast_Matrix_def to_coeffs_def
      column_of_def item2_def cast_Scalar_def flags_def f_style_def eval_nat_numeral)

section \<open>Reading the columns back\<close>




section \<open>The configuration object\<close>

text \<open>
  Claim C2, as stated: no field of a GeneticAlgorithmConfig can be modified once it is
  constructed. It is not so: every attribute is bound read-write, and an assignment to
  \<^verbatim>\<open>Generations\<close> changes it.
\<close>

theorem config_assignment:
  "Generations (setattr (GeneticAlgorithmConfig_init 100 1000 0 50 50 (1/2) (1/4) 0 42 60)
      (SetGenerations 7)) = 7 \<and>
   Generations (GeneticAlgorithmConfig_init 100 1000 0 50 50 (1/2) (1/4) 0 42 60) = 100 \<and>
   (7 :: 64 word) \<noteq> 100"
  by (simp add: GeneticAlgorithmConfig_init_def)

text \<open>
  Claim C2, amended: a GeneticAlgorithmConfig is constructed from its ten named fields,
  each stored in the attribute of its name; afterwards every attribute can be read and
  assigned, and an assignment changes the attribute it names and no other.
\<close>

theorem config_attributes:
  "getattr (GeneticAlgorithmConfig_init gen evals iter popsize poolsize pc pm epsilon seed
      timelimit) b =
     (case b of
        AttrGenerations \<Rightarrow> SizeValue gen
      | AttrEvaluations \<Rightarrow> SizeValue evals
      | AttrIterations \<Rightarrow> SizeValue iter
      | AttrPopulationSize \<Rightarrow> SizeValue popsize
      | AttrPoolSize \<Rightarrow> SizeValue poolsize
      | AttrCrossoverProbability \<Rightarrow> DoubleValue pc
      | AttrMutationProbability \<Rightarrow> DoubleValue pm
      | AttrSeed \<Rightarrow> SizeValue seed
      | AttrEpsilon \<Rightarrow> DoubleValue epsilon
      | AttrTimeLimit \<Rightarrow> SizeValue timelimit) \<and>
   getattr (setattr c a) b = (if b = attribute_of a then value_of a else getattr c b)"
proof
  show "getattr (GeneticAlgorithmConfig_init gen evals iter popsize poolsize pc pm epsilon seed
      timelimit) b =
     (case b of
        AttrGenerations \<Rightarrow> SizeValue gen
      | AttrEvaluations \<Rightarrow> SizeValue evals
      | AttrIterations \<Rightarrow> SizeValue iter
      | AttrPopulationSize \<Rightarrow> SizeValue popsize
      | AttrPoolSize \<Rightarrow> SizeValue poolsize
      | AttrCrossoverProbability \<Rightarrow> DoubleValue pc
      | AttrMutationProbability \<Rightarrow> DoubleValue pm
      | AttrSeed \<Rightarrow> SizeValue seed
      | AttrEpsilon \<Rightarrow> DoubleValue epsilon
      | AttrTimeLimit \<Rightarrow> SizeValue timelimit)"
    by (cases b) (simp_all add: GeneticAlgorithmConfig_init_def)
  show "getattr (setattr c a) b = (if b = attribute_of a then value_of a else getattr c b)"
    by (cases a; cases b) simp_all
qed

section \<open>Fitness of a new individual\<close>

text \<open>
  Claim C6. In an Individual constructed with \<open>n\<close> objectives, after any run of
  SetFitness calls, GetFitness of an objective that none of the calls has set returns the
  +infinity sentinel; with no call at all, this is the new Individual.
\<close>

theorem fitness_sentinel:
  assumes "SetFitness_all (Individual_init tree n) sets = Inr ind"
    and "i < n" and "i \<notin> snd ` set sets"
  shows "GetFitness ind i = Inr PosInf"
proof -
  from SetFitness_all_frame [OF assms(1) assms(3)]
  have "length (Fitness ind) = n" and "Fitness ind ! i = replicate n PosInf ! i"
    by (simp_all add: Individual_init_def)
  with assms(2) show ?thesis
    by (simp add: GetFitness_def)
qed

theorem fitness_sentinel_witness:
  "SetFitness_all (Individual_init ''x'' 3) [(Finite (1 :: int), 0)] =
     Inr \<lparr>Genotype = ''x'', Fitness = [Finite 1, PosInf, PosInf], Rank = 0,
          Distance = Finite 0\<rparr> \<and>
   (2 :: nat) < 3 \<and> 2 \<notin> snd ` set [(Finite (1 :: int), 0 :: nat)] \<and>
   GetFitness \<lparr>Genotype = ''x'', Fitness = [Finite (1 :: int), PosInf, PosInf], Rank = 0,
               Distance = Finite 0\<rparr> 2 = Inr PosInf \<and>
   GetFitness (Individual_init ''x'' 3 :: (string, int) Individual) 0 = Inr PosInf"
proof -
  have a: "SetFitness_all (Individual_init ''x'' 3) [(Finite (1 :: int), 0)] =
     Inr \<lparr>Genotype = ''x'', Fitness = [Finite 1, PosInf, PosInf], Rank = 0,
          Distance = Finite 0\<rparr>"
    by (simp add: Individual_init_def SetFitness_def eval_nat_numeral)
  have b: "SetFitness_all (Individual_init ''x'' 3 :: (string, int) Individual) [] =
     Inr (Individual_init ''x'' 3)"
    by simp
  show ?thesis
    using a fitness_sentinel [OF a, of 2] fitness_sentinel [OF b, of 0] by simp
qed

section \<open>Comparators\<close>

text \<open>
  Claim C7. A call of either comparator hands both individuals back as they were, their
  genotypes among the rest, and its verdict is the same whatever the genotypes are: it
  reads the fitness, the rank and the crowding distance only.
\<close>

theorem comparator_frame:
  assumes "comparator_call c (lhs, rhs) = (verdict, lhs', rhs')"
  shows "lhs' = lhs \<and> rhs' = rhs \<and>
         Genotype lhs' = Genotype lhs \<and> Genotype rhs' = Genotype rhs \<and>
         fst (comparator_call c (lhs\<lparr>Genotype := g\<rparr>, rhs\<lparr>Genotype := h\<rparr>)) = verdict"
  using assms
  by (cases c) (auto simp: SingleObjectiveComparison_def CrowdedComparison_def)

theorem comparator_frame_witness:
  "comparator_call (SingleObjective 0)
     (\<lparr>Genotype = ''x'', Fitness = [Finite (1 :: int)], Rank = 0, Distance = Finite 0\<rparr>,
      \<lparr>Genotype = ''y'', Fitness = [Finite 2], Rank = 1, Distance = PosInf\<rparr>) =
     (Inr True,
      \<lparr>Genotype = ''x'', Fitness = [Finite 1], Rank = 0, Distance = Finite 0\<rparr>,
      \<lparr>Genotype = ''y'', Fitness = [Finite 2], Rank = 1, Distance = PosInf\<rparr>) \<and>
   fst (comparator_call (SingleObjective 0)
     (\<lparr>Genotype = ''p'', Fitness = [Finite (1 :: int)], Rank = 0, Distance = Finite 0\<rparr>,
      \<lparr>Genotype = ''q'', Fitness = [Finite 2], Rank = 1, Distance = PosInf\<rparr>)) = Inr True"
proof -
  have a: "comparator_call (SingleObjective 0)
     (\<lparr>Genotype = ''x'', Fitness = [Finite (1 :: int)], Rank = 0, Distance = Finite 0\<rparr>,
      \<lparr>Genotype = ''y'', Fitness = [Finite 2], Rank = 1, Distance = PosInf\<rparr>) =
     (Inr True,
      \<lparr>Genotype = ''x'', Fitness = [Finite 1], Rank = 0, Distance = Finite 0\<rparr>,
      \<lparr>Genotype = ''y'', Fitness = [Finite 2], Rank = 1, Distance = PosInf\<rparr>)"
    by (simp add: SingleObjectiveComparison_def)
  show ?thesis
    using a comparator_frame [OF a, of "''p''" "''q''"] by simp
qed

section \<open>Shuffle, Normalize and Standardize\<close>

text \<open>
  Claim C8. Shuffle, Normalize and Standardize leave the row count, the column count and
  the variables of a Dataset as they were, and a well-formed matrix well formed. Shuffle
  permutes the observations: there is one order of the row indices, a permutation of them,
  and row \<open>k\<close> of the shuffled Dataset is, in every column at once, the row of the Dataset
  that this order has at \<open>k\<close>. Normalize and Standardize rescale the column they are
  given: in a well-formed Dataset each of its values is shifted and divided by the same
  two statistics of the range, and every other column is as it was.
\<close>

theorem mutators_frame:
  fixes d :: "real Dataset"
  shows "Rows (Shuffle gen d) = Rows d \<and> Cols (Shuffle gen d) = Cols d \<and>
         Variables (Shuffle gen d) = Variables d \<and>
         (well_formed (Values d) \<longrightarrow> well_formed (Values (Shuffle gen d))) \<and>
         mset (row_order gen (Rows d)) = mset [0..<Rows d] \<and>
         (k < Rows d \<longrightarrow>
            row (Values (Shuffle gen d)) k = row (Values d) (row_order gen (Rows d) ! k)) \<and>
         (Normalize i r d = Inr dn \<longrightarrow>
            Rows dn = Rows d \<and> Cols dn = Cols d \<and> Variables dn = Variables d \<and>
            (well_formed (Values d) \<longrightarrow>
               well_formed (Values dn) \<and>
               col (Values dn) i =
                 map (normalized (segment (col (Values d) i) r)) (col (Values d) i) \<and>
               (j < Cols d \<and> j \<noteq> i \<longrightarrow> col (Values dn) j = col (Values d) j))) \<and>
         (Standardize i r d = Inr ds \<longrightarrow>
            Rows ds = Rows d \<and> Cols ds = Cols d \<and> Variables ds = Variables d \<and>
            (well_formed (Values d) \<longrightarrow>
               well_formed (Values ds) \<and>
               col (Values ds) i =
                 map (standardized (segment (col (Values d) i) r)) (col (Values d) i) \<and>
               (j < Cols d \<and> j \<noteq> i \<longrightarrow> col (Values ds) j = col (Values d) j)))"
proof -
  have shuffle_shape: "Rows (Shuffle gen d) = Rows d" "Cols (Shuffle gen d) = Cols d"
    "Variables (Shuffle gen d) = Variables d"
    by (simp_all add: Shuffle_def Rows_def Cols_def Variables_def permute_rows_def)
  have shuffle_wf: "well_formed (Values (Shuffle gen d))"
    by (simp add: Shuffle_def Rows_def well_formed_permute_rows)
  have shuffle_rows: "row (Values (Shuffle gen d)) k = row (Values d) (row_order gen (Rows d) ! k)"
    if "k < Rows d"
    using that by (simp add: Shuffle_def Rows_def row_permute_rows)
  have scale: "Rows e = Rows d \<and> Cols e = Cols d \<and> Variables e = Variables d \<and>
            (well_formed (Values d) \<longrightarrow>
               well_formed (Values e) \<and>
               col (Values e) i = map (f (segment (col (Values d) i) r)) (col (Values d) i) \<and>
               (j < Cols d \<and> j \<noteq> i \<longrightarrow> col (Values e) j = col (Values d) j))"
    if "rescale f i r d = Inr e" for f e
    using rescale_frame [OF that] rescale_column [OF that] rescale_columns [OF that]
    by (simp add: Rows_def Cols_def Variables_def)
  from shuffle_shape shuffle_wf shuffle_rows mset_row_order [of gen "Rows d"]
    scale [of normalized dn] scale [of standardized ds]
  show ?thesis
    by (simp add: Normalize_def Standardize_def)
qed


theorem mutators_frame_witness:
  "Normalize 0 \<lparr>Start = 0, End = 2\<rparr>
     (Dataset_of_Matrix real_engine \<lparr>nrows = 2, ncols = 2, coeffs = [1, 2, 1, 3]\<rparr>) =
     Inr \<lparr>variables = DefaultVariables real_engine 2,
          Values = \<lparr>nrows = 2, ncols = 2, coeffs = [0, 1, 1, 3]\<rparr>, holds = Owned\<rparr> \<and>
   Standardize 1 \<lparr>Start = 0, End = 2\<rparr>
     (Dataset_of_Matrix real_engine \<lparr>nrows = 2, ncols = 2, coeffs = [1, 2, 1, 3]\<rparr>) =
     Inr \<lparr>variables = DefaultVariables real_engine 2,
          Values = \<lparr>nrows = 2, ncols = 2, coeffs = [1, 2, - 1, 1]\<rparr>, holds = Owned\<rparr> \<and>
   col \<lparr>nrows = 2, ncols = 2, coeffs = [0, 1, 1, 3 :: real]\<rparr> 0 = [0, 1] \<and>
   col \<lparr>nrows = 2, ncols = 2, coeffs = [0, 1, 1, 3 :: real]\<rparr> 1 = [1, 3] \<and>
   col \<lparr>nrows = 2, ncols = 2, coeffs = [1, 2, - 1, 1 :: real]\<rparr> 1 = [- 1, 1] \<and>
   row_order (\<lambda>k. 0) 2 = [1, 0] \<and>
   Rows (Shuffle (\<lambda>k. 0)
     (Dataset_of_Matrix real_engine \<lparr>nrows = 2, ncols = 2, coeffs = [1, 2, 1, 3]\<rparr>)) = 2 \<and>
   row (Values (Shuffle (\<lambda>k. 0)
     (Dataset_of_Matrix real_engine \<lparr>nrows = 2, ncols = 2, coeffs = [1, 2, 1, 3]\<rparr>))) 0 =
     [2, 3] \<and>
   row (Values (Shuffle (\<lambda>k. 0)
     (Dataset_of_Matrix real_engine \<lparr>nrows = 2, ncols = 2, coeffs = [1, 2, 1, 3]\<rparr>))) 1 =
     [1, 1]"
proof -
  let ?D = "Dataset_of_Matrix real_engine \<lparr>nrows = 2, ncols = 2, coeffs = [1, 2, 1, 3]\<rparr>"
  let ?N = "\<lparr>variables = DefaultVariables real_engine 2,
          Values = \<lparr>nrows = 2, ncols = 2, coeffs = [0, 1, 1, 3 :: real]\<rparr>, holds = Owned\<rparr>"
  let ?S = "\<lparr>variables = DefaultVariables real_engine 2,
          Values = \<lparr>nrows = 2, ncols = 2, coeffs = [1, 2, - 1, 1 :: real]\<rparr>, holds = Owned\<rparr>"
  have c: "Cols ?D = 2" "Rows ?D = 2" "col (Values ?D) 0 = [1, 2]" "col (Values ?D) 1 = [1, 3]"
    by (simp_all add: Cols_def Rows_def col_def Dataset_of_Matrix_def)
  have rw: "row (Values ?D) 0 = [1, 1]" "row (Values ?D) 1 = [2, 3]"
    by (simp_all add: row_def col_def Dataset_of_Matrix_def upt_rec)
  have n: "Normalize 0 \<lparr>Start = 0, End = 2\<rparr> ?D = Inr ?N"
    by (simp add: Normalize_def normalized_def rescale_def Dataset_of_Matrix_def Cols_def
        Rows_def col_def set_col_def segment_def Size_def)
  have s: "Standardize 1 \<lparr>Start = 0, End = 2\<rparr> ?D = Inr ?S"
    by (simp add: Standardize_def standardized_def mean_def variance_def rescale_def
        Dataset_of_Matrix_def Cols_def Rows_def col_def set_col_def segment_def Size_def
        power2_eq_square)
  have wf: "well_formed (Values ?D)"
    by (simp add: well_formed_def Dataset_of_Matrix_def)
  have p: "row_order (\<lambda>k. 0) 2 = [1, 0]"
    by (simp add: row_order_def swap_def eval_nat_numeral upt_rec)
  note A = mutators_frame [where gen = "\<lambda>k. 0" and d = ?D and k = 0 and i = 0
      and r = "\<lparr>Start = 0, End = 2\<rparr>" and dn = ?N and j = 1 and ds = ?N]
  note B = mutators_frame [where gen = "\<lambda>k. 0" and d = ?D and k = 1 and i = 1
      and r = "\<lparr>Start = 0, End = 2\<rparr>" and dn = ?S and j = 0 and ds = ?S]
  from A c rw p have r0: "row (Values (Shuffle (\<lambda>k. 0) ?D)) 0 = [2, 3]"
    and rs: "Rows (Shuffle (\<lambda>k. 0) ?D) = 2"
    by simp_all
  from B c rw p have r1: "row (Values (Shuffle (\<lambda>k. 0) ?D)) 1 = [1, 1]"
    by simp
  from A n wf c have n1: "col (Values ?N) 1 = [1, 3]"
    by simp
  from B s wf c have s0: "col (Values ?S) 0 = [1, 2]"
    by simp
  have cols: "col \<lparr>nrows = 2, ncols = 2, coeffs = [0, 1, 1, 3 :: real]\<rparr> 0 = [0, 1]"
    "col \<lparr>nrows = 2, ncols = 2, coeffs = [1, 2, - 1, 1 :: real]\<rparr> 1 = [- 1, 1]"
    by (simp_all add: col_def)
  from n s p r0 r1 rs n1 s0 cols show ?thesis
    by simp
qed

end
